theory Spec2Isabelle
  imports Main "HOL-Library.Word"
begin

section \<open>Python values and exceptions\<close>

text \<open>
  The loader's constructor receives arbitrary Python objects and checks their type at run
  time, so its arguments are values of a small universe of Python objects. A character of
  a \<open>string\<close> stands for one code point of the Python \<open>str\<close>.
\<close>

datatype pyval = PyStr string | PyInt int | PyNone

text \<open>An exception is its class name and its message.\<close>

datatype exn = Exn (exn_class: string) (exn_msg: string)

fun isinstance_str :: "pyval \<Rightarrow> bool" where
  "isinstance_str (PyStr s) = True"
| "isinstance_str (PyInt i) = False"
| "isinstance_str PyNone = False"

text \<open>Decimal rendering of an integer, as \<open>str\<close> and an f-string do it.\<close>

fun str_nat :: "nat \<Rightarrow> string" where
  "str_nat n =
     (if n < 10 then [''0123456789'' ! n]
      else str_nat (n div 10) @ [''0123456789'' ! (n mod 10)])"

fun py_format :: "pyval \<Rightarrow> string" where
  "py_format (PyStr s) = s"
| "py_format (PyInt i) = (if i < 0 then ''-'' @ str_nat (nat (- i)) else str_nat (nat i))"
| "py_format PyNone = ''None''"

fun py_len :: "pyval \<Rightarrow> exn + nat" where
  "py_len (PyStr s) = Inr (length s)"
| "py_len (PyInt i) =
     Inl (Exn ''TypeError'' (''object of type '' @ [CHR 0x27] @ ''int'' @ [CHR 0x27] @ '' has no len()''))"
| "py_len PyNone =
     Inl (Exn ''TypeError''
            (''object of type '' @ [CHR 0x27] @ ''NoneType'' @ [CHR 0x27] @ '' has no len()''))"

section \<open>The loader object and its constructor\<close>

record StableDiffusionLoader =
  prompt :: pyval
  pretrain_pipe :: pyval
  device :: string

text \<open>
  \<open>__init__\<close>: the three attributes are assigned first, then the device is tested, then
  the two assertions run in the order of the source. The first argument is the value of
  \<open>torch.cuda.is_available()\<close>.
\<close>

definition init :: "bool \<Rightarrow> pyval \<Rightarrow> pyval \<Rightarrow> exn + StableDiffusionLoader" where
  "init cuda_is_available prompt_arg pretrain_pipe_arg =
     (let self = \<lparr>prompt = prompt_arg,
                  pretrain_pipe = pretrain_pipe_arg,
                  device = (if cuda_is_available then ''cuda'' else ''cpu'')\<rparr>
      in if device self = ''cpu'' then Inl (Exn ''MemoryError'' ''GPU need for inference'')
         else if \<not> isinstance_str (prompt self)
           then Inl (Exn ''AssertionError'' ''Please enter a string into the prompt field'')
         else if \<not> isinstance_str (pretrain_pipe self)
           then Inl (Exn ''AssertionError''
                  ''Please use value such as `CompVis/stable-diffusion-v1-4` for pretrained pipeline'')
         else Inr self)"

text \<open>The constructor called with the prompt alone: the default pipeline name.\<close>

definition init_default :: "bool \<Rightarrow> pyval \<Rightarrow> exn + StableDiffusionLoader" where
  "init_default cuda_is_available prompt_arg =
     init cuda_is_available prompt_arg (PyStr ''CompVis/stable-diffusion-v1-4'')"

definition dunder_str :: "StableDiffusionLoader \<Rightarrow> string" where
  "dunder_str self = ''[INFO] Generating image for prompt: '' @ py_format (prompt self)"

definition dunder_len :: "StableDiffusionLoader \<Rightarrow> exn + nat" where
  "dunder_len self = py_len (prompt self)"

section \<open>The external collaborators\<close>

text \<open>
  The diffusion library, the precision context and the image codec are not part of the
  program: they are parameters. Each call may fail with an exception of the library's own
  and may change the library's internal state \<open>'s\<close> (downloads, device memory, the random
  generator), so a call maps that state to an outcome and a new state. \<open>'p\<close> is the type
  of pipelines and \<open>'i\<close> the type of images.
\<close>

datatype dtype = Float16 | Float32

type_synonym byte = "8 word"

record ('s, 'p, 'i) collab =
  from_pretrained :: "pyval \<Rightarrow> string \<Rightarrow> dtype \<Rightarrow> bool \<Rightarrow> 's \<Rightarrow> (exn + 'p) \<times> 's"
  pipe_to :: "'p \<Rightarrow> string \<Rightarrow> 's \<Rightarrow> (exn + 'p) \<times> 's"
  autocast_enter :: "string \<Rightarrow> 's \<Rightarrow> (exn + unit) \<times> 's"
  autocast_exit :: "string \<Rightarrow> 's \<Rightarrow> 's"
  pipe_call :: "'p \<Rightarrow> pyval \<Rightarrow> 's \<Rightarrow> (exn + 'i list list) \<times> 's"
  image_encode :: "'i \<Rightarrow> string \<Rightarrow> byte list"

text \<open>
  What the method does to its surroundings, in the order it does it: one event per
  statement of the source that reaches outside the object.
\<close>

datatype 'i event =
    EvFromPretrained pyval string dtype bool
  | EvTo string
  | EvAutocastEnter string
  | EvCall pyval
  | EvAutocastExit string
  | EvSave 'i string
  | EvPrint string

record ('s, 'i) world =
  ext :: 's
  files :: "string \<rightharpoonup> byte list"
  writable :: "string \<Rightarrow> bool"
  stdout :: "string list"
  stdout_error :: "string \<Rightarrow> exn option"
  trace :: "'i event list"

definition log_event :: "'i event \<Rightarrow> ('s, 'i) world \<Rightarrow> ('s, 'i) world" where
  "log_event ev w = w\<lparr>trace := trace w @ [ev]\<rparr>"

definition ext_call :: "('s \<Rightarrow> 'a \<times> 's) \<Rightarrow> ('s, 'i) world \<Rightarrow> 'a \<times> ('s, 'i) world" where
  "ext_call f w = (case f (ext w) of (r, s) \<Rightarrow> (r, w\<lparr>ext := s\<rparr>))"

text \<open>\<open>xs[0]\<close>: the first element, or \<open>IndexError\<close> on an empty sequence.\<close>

definition index0 :: "'a list \<Rightarrow> exn + 'a" where
  "index0 xs = (case xs of [] \<Rightarrow> Inl (Exn ''IndexError'' ''list index out of range'')
                | x # _ \<Rightarrow> Inr x)"

text \<open>
  Modelled from the spec: \<open>Image.save\<close> belongs to the imaging library, which is not in
  the repository. Section 4.1, step 4 and section 6 of the specification give its
  contract: the image is written to the path, and the write fails with an error of the
  \<open>IOError\<close> kind when the location is not writable. The bytes written are those the
  codec produces for that image and that file name.
\<close>

definition image_save ::
  "('s, 'p, 'i) collab \<Rightarrow> 'i \<Rightarrow> string \<Rightarrow> ('s, 'i) world \<Rightarrow> (exn + unit) \<times> ('s, 'i) world" where
  "image_save C img loc w =
     (if writable w loc
      then (Inr (), w\<lparr>files := (files w)(loc \<mapsto> image_encode C img loc)\<rparr>)
      else (Inl (Exn ''OSError'' loc), w))"

text \<open>
  \<open>print(line)\<close>. The write to standard output can be refused: the stream may be closed
  (\<open>ValueError\<close>) or its encoding may not have a character of the line
  (\<open>UnicodeEncodeError\<close>). \<open>stdout_error w line\<close> is the exception the surroundings
  raise for that line, if they raise one; the line is written otherwise.
\<close>

definition py_print :: "string \<Rightarrow> ('s, 'i) world \<Rightarrow> (exn + unit) \<times> ('s, 'i) world" where
  "py_print line w =
     (case stdout_error w line of
        Some e \<Rightarrow> (Inl e, log_event (EvPrint line) w)
      | None \<Rightarrow> (Inr (), (log_event (EvPrint line) w)\<lparr>stdout := stdout w @ [line]\<rparr>))"

text \<open>
  \<open>with autocast(device): body\<close>. The context is entered, the body runs, and the context
  is left whether the body returned or raised; the body's exception then goes on to the
  caller (the context manager does not swallow it).
\<close>

definition with_autocast ::
  "('s, 'p, 'i) collab \<Rightarrow> string \<Rightarrow> (('s, 'i) world \<Rightarrow> (exn + 'a) \<times> ('s, 'i) world)
     \<Rightarrow> ('s, 'i) world \<Rightarrow> (exn + 'a) \<times> ('s, 'i) world" where
  "with_autocast C dev body w =
     (case ext_call (autocast_enter C dev) (log_event (EvAutocastEnter dev) w) of
        (Inl e, w1) \<Rightarrow> (Inl e, w1)
      | (Inr _, w1) \<Rightarrow>
          (case body w1 of
             (r, w2) \<Rightarrow> (r, (log_event (EvAutocastExit dev) w2)\<lparr>ext := autocast_exit C dev (ext w2)\<rparr>)))"

text \<open>\<open>pipe(self.prompt)[0][0]\<close>, the body of the \<open>with\<close> block.\<close>

definition first_image ::
  "('s, 'p, 'i) collab \<Rightarrow> 'p \<Rightarrow> pyval \<Rightarrow> ('s, 'i) world \<Rightarrow> (exn + 'i) \<times> ('s, 'i) world" where
  "first_image C pipe p w =
     (case ext_call (pipe_call C pipe p) (log_event (EvCall p) w) of
        (Inl e, w1) \<Rightarrow> (Inl e, w1)
      | (Inr out, w1) \<Rightarrow>
          (case index0 out of
             Inl e \<Rightarrow> (Inl e, w1)
           | Inr batch \<Rightarrow> (index0 batch, w1)))"

section \<open>Generation\<close>

text \<open>A keyword argument that the caller may leave out, and its default.\<close>

definition arg_or :: "'a \<Rightarrow> 'a option \<Rightarrow> 'a" where
  "arg_or d a = (case a of None \<Rightarrow> d | Some v \<Rightarrow> v)"

text \<open>
  \<open>generate_image_from_prompt\<close>. The result is what the call returns or raises, the
  object \<open>self\<close> as the call leaves it, and the surroundings as the call leaves them.
\<close>

definition generate_image_from_prompt ::
  "('s, 'p, 'i) collab \<Rightarrow> StableDiffusionLoader \<Rightarrow> string option \<Rightarrow> bool option \<Rightarrow> bool option
     \<Rightarrow> ('s, 'i) world \<Rightarrow> (exn + 'i) \<times> StableDiffusionLoader \<times> ('s, 'i) world" where
  "generate_image_from_prompt C self save_location_arg use_token_arg verbose_arg w =
     (let save_location = arg_or ''prompt.jpg'' save_location_arg;
          use_token = arg_or False use_token_arg;
          verbose = arg_or False verbose_arg
      in case ext_call (from_pretrained C (pretrain_pipe self) ''fp16'' Float16 use_token)
                (log_event (EvFromPretrained (pretrain_pipe self) ''fp16'' Float16 use_token) w) of
           (Inl e, w1) \<Rightarrow> (Inl e, self, w1)
         | (Inr pipe, w1) \<Rightarrow>
             (case ext_call (pipe_to C pipe (device self)) (log_event (EvTo (device self)) w1) of
                (Inl e, w2) \<Rightarrow> (Inl e, self, w2)
              | (Inr pipe', w2) \<Rightarrow>
                  (case with_autocast C (device self) (first_image C pipe' (prompt self)) w2 of
                     (Inl e, w3) \<Rightarrow> (Inl e, self, w3)
                   | (Inr img, w3) \<Rightarrow>
                       (case image_save C img save_location
                               (log_event (EvSave img save_location) w3) of
                          (Inl e, w4) \<Rightarrow> (Inl e, self, w4)
                        | (Inr _, w4) \<Rightarrow>
                            (if verbose
                             then (case py_print (''[INFO] saving image to '' @ save_location) w4 of
                                     (Inl e, w5) \<Rightarrow> (Inl e, self, w5)
                                   | (Inr _, w5) \<Rightarrow> (Inr img, self, w5))
                             else (Inr img, self, w4))))))"

section \<open>Test doubles\<close>

text \<open>
  Two collaborators for concrete runs. Both count, in their state, the calls that reach
  the library. \<open>stub_fixed img\<close> resolves and binds any pipeline and returns one batch
  holding the image \<open>img\<close>, an image being the bytes of its file; \<open>stub_raising\<close> resolves
  and binds, and raises when the pipeline is invoked.
\<close>

definition stub_fixed :: "byte list \<Rightarrow> (nat, unit, byte list) collab" where
  "stub_fixed img =
     \<lparr>from_pretrained = (\<lambda>m revision dt tok s. (Inr (), Suc s)),
      pipe_to = (\<lambda>p d s. (Inr p, Suc s)),
      autocast_enter = (\<lambda>d s. (Inr (), s)),
      autocast_exit = (\<lambda>d s. s),
      pipe_call = (\<lambda>p q s. (Inr [[img]], Suc s)),
      image_encode = (\<lambda>i l. i)\<rparr>"

definition stub_raising :: "(nat, unit, byte list) collab" where
  "stub_raising =
     \<lparr>from_pretrained = (\<lambda>m revision dt tok s. (Inr (), Suc s)),
      pipe_to = (\<lambda>p d s. (Inr p, Suc s)),
      autocast_enter = (\<lambda>d s. (Inr (), s)),
      autocast_exit = (\<lambda>d s. s),
      pipe_call = (\<lambda>p q s. (Inl (Exn ''RuntimeError'' ''CUDA out of memory''), Suc s)),
      image_encode = (\<lambda>i l. i)\<rparr>"

definition world0 :: "(nat, byte list) world" where
  "world0 = \<lparr>ext = 0, files = Map.empty, writable = (\<lambda>l. True), stdout = [],
              stdout_error = (\<lambda>l. None), trace = []\<rparr>"

text \<open>The same surroundings with standard output closed: every \<open>print\<close> raises.\<close>

definition world_closed :: "(nat, byte list) world" where
  "world_closed = \<lparr>ext = 0, files = Map.empty, writable = (\<lambda>l. True), stdout = [],
                    stdout_error = (\<lambda>l. Some (Exn ''ValueError'' ''I/O operation on closed file.'')),
                    trace = []\<rparr>"

definition red_circle :: StableDiffusionLoader where
  "red_circle = \<lparr>prompt = PyStr ''a red circle'',
                 pretrain_pipe = PyStr ''CompVis/stable-diffusion-v1-4'',
                 device = ''cuda''\<rparr>"

fun is_save :: "'i event \<Rightarrow> bool" where
  "is_save (EvSave img loc) = True"
| "is_save ev = False"

fun is_from_pretrained :: "'i event \<Rightarrow> bool" where
  "is_from_pretrained (EvFromPretrained m revision dt tok) = True"
| "is_from_pretrained ev = False"

fun is_call :: "'i event \<Rightarrow> bool" where
  "is_call (EvCall p) = True"
| "is_call ev = False"

section \<open>Construction\<close>

text \<open>
  C1. Where no accelerated device is available, construction raises the resource error
  (the source's \<open>MemoryError\<close>), whatever the prompt and the model identifier are: the
  device test comes before both type assertions.
\<close>

theorem init_no_accelerator:
  "init False p m = Inl (Exn ''MemoryError'' ''GPU need for inference'')"
  by (simp add: init_def)

text \<open>
  C2, as the specification has it: an empty prompt, and an empty model identifier, are
  refused at construction. The constructor tests the type of the two arguments only, so
  the empty string is accepted for the prompt, and for the model identifier too.
\<close>

theorem init_empty_prompt_accepted:
  "init_default True (PyStr []) =
     Inr \<lparr>prompt = PyStr [], pretrain_pipe = PyStr ''CompVis/stable-diffusion-v1-4'',
          device = ''cuda''\<rparr>
   \<and> init True (PyStr ''a red circle'') (PyStr []) =
     Inr \<lparr>prompt = PyStr ''a red circle'', pretrain_pipe = PyStr [], device = ''cuda''\<rparr>"
  by (simp add: init_default_def init_def)

text \<open>
  C2, amended. With an accelerated device, construction fails with an
  \<open>AssertionError\<close> when the prompt or the model identifier is not a string, and in no
  other case: every pair of strings, empty or not, is accepted, and the object built
  holds them as they were given.
\<close>

theorem init_wrong_type:
  "(\<not> isinstance_str p \<or> \<not> isinstance_str m
      \<longrightarrow> (\<exists>msg. init True p m = Inl (Exn ''AssertionError'' msg)))
   \<and> (isinstance_str p \<and> isinstance_str m
      \<longrightarrow> init True p m = Inr \<lparr>prompt = p, pretrain_pipe = m, device = ''cuda''\<rparr>)
   \<and> init True (PyStr P) (PyStr M)
       = Inr \<lparr>prompt = PyStr P, pretrain_pipe = PyStr M, device = ''cuda''\<rparr>"
  by (auto simp add: init_def Let_def)

theorem init_wrong_type_witness:
  "(\<exists>msg. init True (PyInt 42) (PyStr ''CompVis/stable-diffusion-v1-4'')
            = Inl (Exn ''AssertionError'' msg))
   \<and> (\<exists>msg. init True (PyStr ''a red circle'') PyNone = Inl (Exn ''AssertionError'' msg))
   \<and> init True (PyStr []) (PyStr [])
       = Inr \<lparr>prompt = PyStr [], pretrain_pipe = PyStr [], device = ''cuda''\<rparr>"
  using init_wrong_type [of "PyInt 42" "PyStr ''CompVis/stable-diffusion-v1-4''" "[]" "[]"]
        init_wrong_type [of "PyStr ''a red circle''" PyNone "[]" "[]"]
  by simp

text \<open>
  C4. With an accelerated device, a non-empty prompt string and a non-empty model
  identifier string, construction succeeds, and the new object holds the prompt as it
  was given (and the model identifier, and the device \<open>cuda\<close>).
\<close>

theorem init_stores_prompt:
  assumes "P \<noteq> []" and "M \<noteq> []"
  shows "\<exists>g. init True (PyStr P) (PyStr M) = Inr g \<and> prompt g = PyStr P
              \<and> pretrain_pipe g = PyStr M \<and> device g = ''cuda''"
  by (simp add: init_def)

theorem init_stores_prompt_witness:
  "\<exists>g. init True (PyStr ''a red circle'') (PyStr ''CompVis/stable-diffusion-v1-4'') = Inr g
       \<and> prompt g = PyStr ''a red circle''
       \<and> pretrain_pipe g = PyStr ''CompVis/stable-diffusion-v1-4'' \<and> device g = ''cuda''"
proof -
  have p: "''a red circle'' \<noteq> []" by simp
  have m: "''CompVis/stable-diffusion-v1-4'' \<noteq> []" by simp
  show ?thesis by (rule init_stores_prompt [OF p m])
qed

section \<open>Rendering and length\<close>

text \<open>
  A fact used below: an object that the constructor returned holds the two arguments,
  both strings, and the device \<open>cuda\<close>.
\<close>

lemma init_InrD:
  assumes "init c p m = Inr g"
  shows "c" and "g = \<lparr>prompt = p, pretrain_pipe = m, device = ''cuda''\<rparr>"
    and "isinstance_str p" and "isinstance_str m"
  using assms by (auto simp add: init_def Let_def split: if_splits)

lemma isinstance_strD: "isinstance_str p \<Longrightarrow> \<exists>P. p = PyStr P"
  by (cases p) simp_all

text \<open>
  C9. The length of a constructed object is the length of the prompt string it was
  constructed with.
\<close>

theorem len_is_prompt_length:
  assumes "init c p m = Inr g"
  shows "\<exists>P. p = PyStr P \<and> dunder_len g = Inr (length P)"
proof -
  from init_InrD(3) [OF assms] obtain P where P: "p = PyStr P"
    using isinstance_strD by blast
  from init_InrD(2) [OF assms] have "prompt g = p" by simp
  with P show ?thesis by (simp add: dunder_len_def)
qed

theorem len_is_prompt_length_witness:
  "\<exists>P. PyStr ''a red circle'' = PyStr P \<and> dunder_len red_circle = Inr (length P)"
proof -
  have "init True (PyStr ''a red circle'') (PyStr ''CompVis/stable-diffusion-v1-4'')
          = Inr red_circle"
    by (simp add: init_def red_circle_def)
  then show ?thesis by (rule len_is_prompt_length)
qed

text \<open>
  C10. The rendering of a constructed object is the fixed text
  \<open>[INFO] Generating image for prompt: \<close> followed by the prompt string.
\<close>

theorem str_is_info_prompt:
  assumes "init c p m = Inr g"
  shows "\<exists>P. p = PyStr P \<and> dunder_str g = ''[INFO] Generating image for prompt: '' @ P"
proof -
  from init_InrD(3) [OF assms] obtain P where P: "p = PyStr P"
    using isinstance_strD by blast
  from init_InrD(2) [OF assms] have "prompt g = p" by simp
  with P show ?thesis by (simp add: dunder_str_def)
qed

theorem str_is_info_prompt_witness:
  "\<exists>P. PyStr ''a red circle'' = PyStr P
       \<and> dunder_str red_circle = ''[INFO] Generating image for prompt: '' @ P"
proof -
  have "init True (PyStr ''a red circle'') (PyStr ''CompVis/stable-diffusion-v1-4'')
          = Inr red_circle"
    by (simp add: init_def red_circle_def)
  then show ?thesis by (rule str_is_info_prompt)
qed

section \<open>Generation: what a call does\<close>

text \<open>
  The outcome of a call, stage by stage: where the first failing step is the resolution,
  the binding or the invocation, and where every step succeeds.
\<close>

lemmas gen_defs = generate_image_from_prompt_def ext_call_def log_event_def with_autocast_def
  first_image_def image_save_def py_print_def Let_def

lemma generate_resolve_raises:
  assumes "from_pretrained C (pretrain_pipe self) ''fp16'' Float16 (arg_or False tok) (ext w) = (Inl e, s1)"
  shows "generate_image_from_prompt C self loc tok verb w =
    (Inl e, self,
     w\<lparr>ext := s1,
       trace := trace w @ [EvFromPretrained (pretrain_pipe self) ''fp16'' Float16 (arg_or False tok)]\<rparr>)"
  using assms by (simp add: gen_defs)

lemma generate_bind_raises:
  assumes "from_pretrained C (pretrain_pipe self) ''fp16'' Float16 (arg_or False tok) (ext w) = (Inr pipe, s1)"
    and "pipe_to C pipe (device self) s1 = (Inl e, s2)"
  shows "generate_image_from_prompt C self loc tok verb w =
    (Inl e, self,
     w\<lparr>ext := s2,
       trace := trace w @ [EvFromPretrained (pretrain_pipe self) ''fp16'' Float16 (arg_or False tok),
                           EvTo (device self)]\<rparr>)"
  using assms by (simp add: gen_defs)

lemma generate_call_raises:
  assumes "from_pretrained C (pretrain_pipe self) ''fp16'' Float16 (arg_or False tok) (ext w) = (Inr pipe, s1)"
    and "pipe_to C pipe (device self) s1 = (Inr pipe', s2)"
    and "autocast_enter C (device self) s2 = (Inr u, s3)"
    and "pipe_call C pipe' (prompt self) s3 = (Inl e, s4)"
  shows "generate_image_from_prompt C self loc tok verb w =
    (Inl e, self,
     w\<lparr>ext := autocast_exit C (device self) s4,
       trace := trace w @ [EvFromPretrained (pretrain_pipe self) ''fp16'' Float16 (arg_or False tok),
                           EvTo (device self), EvAutocastEnter (device self), EvCall (prompt self),
                           EvAutocastExit (device self)]\<rparr>)"
  using assms by (simp add: gen_defs)

lemma generate_success:
  assumes "from_pretrained C (pretrain_pipe self) ''fp16'' Float16 (arg_or False tok) (ext w) = (Inr pipe, s1)"
    and "pipe_to C pipe (device self) s1 = (Inr pipe', s2)"
    and "autocast_enter C (device self) s2 = (Inr u, s3)"
    and "pipe_call C pipe' (prompt self) s3 = (Inr ((img # rest) # batches), s4)"
    and "writable w (arg_or ''prompt.jpg'' loc)"
    and "arg_or False verb
           \<longrightarrow> stdout_error w (''[INFO] saving image to '' @ arg_or ''prompt.jpg'' loc) = None"
  shows "generate_image_from_prompt C self loc tok verb w =
    (Inr img, self,
     w\<lparr>ext := autocast_exit C (device self) s4,
       files := (files w)(arg_or ''prompt.jpg'' loc \<mapsto> image_encode C img (arg_or ''prompt.jpg'' loc)),
       stdout := stdout w @ (if arg_or False verb then [''[INFO] saving image to '' @ arg_or ''prompt.jpg'' loc] else []),
       trace := trace w @ [EvFromPretrained (pretrain_pipe self) ''fp16'' Float16 (arg_or False tok),
                           EvTo (device self), EvAutocastEnter (device self), EvCall (prompt self),
                           EvAutocastExit (device self), EvSave img (arg_or ''prompt.jpg'' loc)]
                 @ (if arg_or False verb then [EvPrint (''[INFO] saving image to '' @ arg_or ''prompt.jpg'' loc)] else [])\<rparr>)"
  using assms by (simp add: gen_defs index0_def)

lemma generate_print_raises:
  assumes "from_pretrained C (pretrain_pipe self) ''fp16'' Float16 (arg_or False tok) (ext w) = (Inr pipe, s1)"
    and "pipe_to C pipe (device self) s1 = (Inr pipe', s2)"
    and "autocast_enter C (device self) s2 = (Inr u, s3)"
    and "pipe_call C pipe' (prompt self) s3 = (Inr ((img # rest) # batches), s4)"
    and "writable w (arg_or ''prompt.jpg'' loc)"
    and "arg_or False verb"
    and "stdout_error w (''[INFO] saving image to '' @ arg_or ''prompt.jpg'' loc) = Some e"
  shows "generate_image_from_prompt C self loc tok verb w =
    (Inl e, self,
     w\<lparr>ext := autocast_exit C (device self) s4,
       files := (files w)(arg_or ''prompt.jpg'' loc \<mapsto> image_encode C img (arg_or ''prompt.jpg'' loc)),
       trace := trace w @ [EvFromPretrained (pretrain_pipe self) ''fp16'' Float16 (arg_or False tok),
                           EvTo (device self), EvAutocastEnter (device self), EvCall (prompt self),
                           EvAutocastExit (device self), EvSave img (arg_or ''prompt.jpg'' loc),
                           EvPrint (''[INFO] saving image to '' @ arg_or ''prompt.jpg'' loc)]\<rparr>)"
  using assms by (simp add: gen_defs index0_def)

lemma generate_self: "fst (snd (generate_image_from_prompt C self loc tok verb w)) = self"
  by (simp add: gen_defs split: prod.splits sum.splits option.splits)

lemma generate_verbose_frame:
  "files (snd (snd (generate_image_from_prompt C self loc tok v1 w)))
     = files (snd (snd (generate_image_from_prompt C self loc tok v2 w)))
   \<and> ext (snd (snd (generate_image_from_prompt C self loc tok v1 w)))
     = ext (snd (snd (generate_image_from_prompt C self loc tok v2 w)))"
  by (simp add: gen_defs split: prod.splits sum.splits option.splits)

lemma generate_verbose_result:
  assumes "stdout_error w (''[INFO] saving image to '' @ arg_or ''prompt.jpg'' loc) = None"
  shows "fst (generate_image_from_prompt C self loc tok v1 w)
           = fst (generate_image_from_prompt C self loc tok v2 w)"
  using assms by (simp add: gen_defs split: prod.splits sum.splits)

lemma generate_InrD:
  fixes C :: "('s, 'p, 'i) collab"
  assumes "generate_image_from_prompt C self loc tok verb w = (Inr img, self', w')"
  shows "\<exists>pipe s1 pipe' s2 u s3 rest batches s4.
       from_pretrained C (pretrain_pipe self) ''fp16'' Float16 (arg_or False tok) (ext w) = (Inr pipe, s1)
     \<and> pipe_to C pipe (device self) s1 = (Inr pipe', s2)
     \<and> autocast_enter C (device self) s2 = (Inr u, s3)
     \<and> pipe_call C pipe' (prompt self) s3 = (Inr ((img # rest) # batches), s4)
     \<and> writable w (arg_or ''prompt.jpg'' loc)
     \<and> (arg_or False verb
          \<longrightarrow> stdout_error w (''[INFO] saving image to '' @ arg_or ''prompt.jpg'' loc) = None)"
  using assms
  by (auto simp add: gen_defs index0_def
        split: prod.splits sum.splits list.splits if_splits option.splits)

text \<open>
  C3. When the collaborator raises while the pipeline is resolved, bound or invoked, the
  call raises that same exception, no image is saved (the files are as they were and no
  save was attempted), nothing is printed, and nothing is tried a second time: the
  pipeline was resolved once and invoked at most once.
\<close>

theorem generate_collaborator_raises:
  fixes C :: "('s, 'p, 'i) collab"
  assumes "from_pretrained C (pretrain_pipe self) ''fp16'' Float16 (arg_or False tok) (ext w)
             = (Inl e, s1)
         \<or> (from_pretrained C (pretrain_pipe self) ''fp16'' Float16 (arg_or False tok) (ext w)
               = (Inr pipe, s1)
            \<and> pipe_to C pipe (device self) s1 = (Inl e, s2))
         \<or> (from_pretrained C (pretrain_pipe self) ''fp16'' Float16 (arg_or False tok) (ext w)
               = (Inr pipe, s1)
            \<and> pipe_to C pipe (device self) s1 = (Inr pipe', s2)
            \<and> autocast_enter C (device self) s2 = (Inr u, s3)
            \<and> pipe_call C pipe' (prompt self) s3 = (Inl e, s4))"
  shows "\<exists>w' evs. generate_image_from_prompt C self loc tok verb w = (Inl e, self, w')
           \<and> files w' = files w \<and> stdout w' = stdout w
           \<and> trace w' = trace w @ evs \<and> filter is_save evs = []
           \<and> length (filter is_from_pretrained evs) = 1 \<and> length (filter is_call evs) \<le> 1"
proof -
  consider
    (resolve) "from_pretrained C (pretrain_pipe self) ''fp16'' Float16 (arg_or False tok) (ext w)
                 = (Inl e, s1)"
  | (bind) "from_pretrained C (pretrain_pipe self) ''fp16'' Float16 (arg_or False tok) (ext w)
                 = (Inr pipe, s1)"
           "pipe_to C pipe (device self) s1 = (Inl e, s2)"
  | (invoke) "from_pretrained C (pretrain_pipe self) ''fp16'' Float16 (arg_or False tok) (ext w)
                 = (Inr pipe, s1)"
           "pipe_to C pipe (device self) s1 = (Inr pipe', s2)"
           "autocast_enter C (device self) s2 = (Inr u, s3)"
           "pipe_call C pipe' (prompt self) s3 = (Inl e, s4)"
    using assms by blast
  then show ?thesis
  proof cases
    case resolve
    show ?thesis
      unfolding generate_resolve_raises [OF resolve] by simp
  next
    case bind
    show ?thesis
      unfolding generate_bind_raises [OF bind] by simp
  next
    case invoke
    show ?thesis
      unfolding generate_call_raises [OF invoke] by simp
  qed
qed

theorem generate_collaborator_raises_witness:
  "\<exists>w' evs. generate_image_from_prompt stub_raising red_circle (Some ''out.jpg'') None None world0
              = (Inl (Exn ''RuntimeError'' ''CUDA out of memory''), red_circle, w')
           \<and> files w' = files world0 \<and> stdout w' = stdout world0
           \<and> trace w' = trace world0 @ evs \<and> filter is_save evs = []
           \<and> length (filter is_from_pretrained evs) = 1 \<and> length (filter is_call evs) \<le> 1"
proof -
  have "from_pretrained stub_raising (pretrain_pipe red_circle) ''fp16'' Float16
            (arg_or False None) (ext world0) = (Inr (), 1)
        \<and> pipe_to stub_raising () (device red_circle) 1 = (Inr (), 2)
        \<and> autocast_enter stub_raising (device red_circle) 2 = (Inr (), 2)
        \<and> pipe_call stub_raising () (prompt red_circle) 2
            = (Inl (Exn ''RuntimeError'' ''CUDA out of memory''), 3)"
    by (simp add: stub_raising_def world0_def)
  then show ?thesis
    by (intro generate_collaborator_raises disjI2)
qed

text \<open>
  C5. A call that returns has done this, in this order: resolved the pipeline named by
  the object with the revision \<open>fp16\<close>, half-precision weights and the token flag; bound
  it to the object's device; entered the precision context of that device, invoked the
  pipeline on the object's prompt and left the context; saved the image to the save
  location, which is \<open>prompt.jpg\<close> when the caller gave none; printed the note if
  \<open>verbose\<close> was set (and the note was accepted by standard output), and not otherwise.
  Each step started from the state the step before it left, and the image returned is
  the first of the first batch.
\<close>

theorem generate_steps_in_order:
  fixes C :: "('s, 'p, 'i) collab"
  assumes "generate_image_from_prompt C self loc tok verb w = (Inr img, self', w')"
  shows "\<exists>pipe s1 pipe' s2 u s3 rest batches s4.
       from_pretrained C (pretrain_pipe self) ''fp16'' Float16 (arg_or False tok) (ext w)
         = (Inr pipe, s1)
     \<and> pipe_to C pipe (device self) s1 = (Inr pipe', s2)
     \<and> autocast_enter C (device self) s2 = (Inr u, s3)
     \<and> pipe_call C pipe' (prompt self) s3 = (Inr ((img # rest) # batches), s4)
     \<and> writable w (arg_or ''prompt.jpg'' loc)
     \<and> ext w' = autocast_exit C (device self) s4
     \<and> files w' = (files w)(arg_or ''prompt.jpg'' loc
                       \<mapsto> image_encode C img (arg_or ''prompt.jpg'' loc))
     \<and> stdout w' = stdout w
           @ (if arg_or False verb
              then [''[INFO] saving image to '' @ arg_or ''prompt.jpg'' loc] else [])
     \<and> trace w' = trace w
           @ [EvFromPretrained (pretrain_pipe self) ''fp16'' Float16 (arg_or False tok),
              EvTo (device self),
              EvAutocastEnter (device self), EvCall (prompt self), EvAutocastExit (device self),
              EvSave img (arg_or ''prompt.jpg'' loc)]
           @ (if arg_or False verb
              then [EvPrint (''[INFO] saving image to '' @ arg_or ''prompt.jpg'' loc)] else [])
     \<and> arg_or ''prompt.jpg'' (None :: string option) = ''prompt.jpg''
     \<and> (arg_or False verb
          \<longrightarrow> stdout_error w (''[INFO] saving image to '' @ arg_or ''prompt.jpg'' loc) = None)"
proof -
  from generate_InrD [OF assms]
  obtain pipe s1 pipe' s2 u s3 rest batches s4 where
    steps: "from_pretrained C (pretrain_pipe self) ''fp16'' Float16 (arg_or False tok) (ext w)
              = (Inr pipe, s1)"
      "pipe_to C pipe (device self) s1 = (Inr pipe', s2)"
      "autocast_enter C (device self) s2 = (Inr u, s3)"
      "pipe_call C pipe' (prompt self) s3 = (Inr ((img # rest) # batches), s4)"
      "writable w (arg_or ''prompt.jpg'' loc)"
      "arg_or False verb
         \<longrightarrow> stdout_error w (''[INFO] saving image to '' @ arg_or ''prompt.jpg'' loc) = None"
    by blast
  from generate_success [OF steps] assms
  have w': "w' = w\<lparr>ext := autocast_exit C (device self) s4,
       files := (files w)(arg_or ''prompt.jpg'' loc \<mapsto> image_encode C img (arg_or ''prompt.jpg'' loc)),
       stdout := stdout w @ (if arg_or False verb then [''[INFO] saving image to '' @ arg_or ''prompt.jpg'' loc] else []),
       trace := trace w @ [EvFromPretrained (pretrain_pipe self) ''fp16'' Float16 (arg_or False tok),
                           EvTo (device self), EvAutocastEnter (device self), EvCall (prompt self),
                           EvAutocastExit (device self), EvSave img (arg_or ''prompt.jpg'' loc)]
                 @ (if arg_or False verb then [EvPrint (''[INFO] saving image to '' @ arg_or ''prompt.jpg'' loc)] else [])\<rparr>"
    by simp
  have "arg_or ''prompt.jpg'' (None :: string option) = ''prompt.jpg''"
    by (simp add: arg_or_def)
  with steps w' show ?thesis
    by (intro exI [of _ pipe] exI [of _ s1] exI [of _ pipe'] exI [of _ s2] exI [of _ u]
          exI [of _ s3] exI [of _ rest] exI [of _ batches] exI [of _ s4]) simp
qed

theorem generate_steps_in_order_witness:
  "trace (snd (snd (generate_image_from_prompt (stub_fixed [1, 2, 3]) red_circle None None
                      (Some True) world0)))
     = [EvFromPretrained (PyStr ''CompVis/stable-diffusion-v1-4'') ''fp16'' Float16 False,
        EvTo ''cuda'', EvAutocastEnter ''cuda'', EvCall (PyStr ''a red circle''),
        EvAutocastExit ''cuda'', EvSave [1, 2, 3] ''prompt.jpg'',
        EvPrint ''[INFO] saving image to prompt.jpg'']"
proof -
  let ?G = "generate_image_from_prompt (stub_fixed [1, 2, 3]) red_circle None None
              (Some True) world0"
  have "fst ?G = Inr [1, 2, 3]"
    by (simp add: gen_defs index0_def arg_or_def stub_fixed_def world0_def red_circle_def)
  then have "?G = (Inr [1, 2, 3], fst (snd ?G), snd (snd ?G))"
    by (metis prod.collapse)
  from generate_steps_in_order [OF this] show ?thesis
    by (auto simp add: arg_or_def world0_def red_circle_def)
qed

text \<open>
  C6. When the pipeline is resolved, bound and invoked without error, returns at least
  one batch with at least one image, the save location is writable, and the note, where
  \<open>verbose\<close> asks for it, is accepted by standard output, the call returns the first
  image of the first batch and nothing else, the file at the save location holds the
  encoding of that image, no other file has changed, and the pipeline was invoked once
  and one image saved.
\<close>

theorem generate_first_image_persisted:
  fixes C :: "('s, 'p, 'i) collab"
  assumes "from_pretrained C (pretrain_pipe self) ''fp16'' Float16 (arg_or False tok) (ext w)
             = (Inr pipe, s1)"
    and "pipe_to C pipe (device self) s1 = (Inr pipe', s2)"
    and "autocast_enter C (device self) s2 = (Inr u, s3)"
    and "pipe_call C pipe' (prompt self) s3 = (Inr ((img # rest) # batches), s4)"
    and "writable w (arg_or ''prompt.jpg'' loc)"
    and "arg_or False verb
           \<longrightarrow> stdout_error w (''[INFO] saving image to '' @ arg_or ''prompt.jpg'' loc) = None"
  shows "\<exists>w' evs. generate_image_from_prompt C self loc tok verb w = (Inr img, self, w')
           \<and> files w' (arg_or ''prompt.jpg'' loc)
               = Some (image_encode C img (arg_or ''prompt.jpg'' loc))
           \<and> (\<forall>l. l \<noteq> arg_or ''prompt.jpg'' loc \<longrightarrow> files w' l = files w l)
           \<and> trace w' = trace w @ evs
           \<and> filter is_save evs = [EvSave img (arg_or ''prompt.jpg'' loc)]
           \<and> length (filter is_call evs) = 1"
  unfolding generate_success [OF assms] by simp

theorem generate_first_image_persisted_witness:
  "(\<exists>w' evs. generate_image_from_prompt (stub_fixed [255, 216, 255]) red_circle
                (Some ''out.jpg'') None None world0 = (Inr [255, 216, 255], red_circle, w')
           \<and> files w' ''out.jpg'' = Some [255, 216, 255]
           \<and> (\<forall>l. l \<noteq> ''out.jpg'' \<longrightarrow> files w' l = files world0 l)
           \<and> trace w' = trace world0 @ evs
           \<and> filter is_save evs = [EvSave [255, 216, 255] ''out.jpg'']
           \<and> length (filter is_call evs) = 1)
   \<and> (\<exists>w' evs. generate_image_from_prompt (stub_fixed [255, 216, 255]) red_circle
                (Some ''out.jpg'') None (Some True) world0 = (Inr [255, 216, 255], red_circle, w')
           \<and> files w' ''out.jpg'' = Some [255, 216, 255]
           \<and> (\<forall>l. l \<noteq> ''out.jpg'' \<longrightarrow> files w' l = files world0 l)
           \<and> trace w' = trace world0 @ evs
           \<and> filter is_save evs = [EvSave [255, 216, 255] ''out.jpg'']
           \<and> length (filter is_call evs) = 1)"
proof -
  have steps:
    "from_pretrained (stub_fixed [255, 216, 255]) (pretrain_pipe red_circle) ''fp16'' Float16
       (arg_or False None) (ext world0) = (Inr (), 1)"
    "pipe_to (stub_fixed [255, 216, 255]) () (device red_circle) 1 = (Inr (), 2)"
    "autocast_enter (stub_fixed [255, 216, 255]) (device red_circle) 2 = (Inr (), 2)"
    "pipe_call (stub_fixed [255, 216, 255]) () (prompt red_circle) 2
       = (Inr (([255, 216, 255] # []) # []), 3)"
    "writable world0 (arg_or ''prompt.jpg'' (Some ''out.jpg''))"
    by (simp_all add: stub_fixed_def world0_def)
  have quiet: "arg_or False None
      \<longrightarrow> stdout_error world0 (''[INFO] saving image to '' @ arg_or ''prompt.jpg'' (Some ''out.jpg''))
            = None"
    by (simp add: world0_def)
  have noted: "arg_or False (Some True)
      \<longrightarrow> stdout_error world0 (''[INFO] saving image to '' @ arg_or ''prompt.jpg'' (Some ''out.jpg''))
            = None"
    by (simp add: world0_def)
  from generate_first_image_persisted [OF steps quiet]
       generate_first_image_persisted [OF steps noted]
  show ?thesis
    by (simp add: arg_or_def stub_fixed_def)
qed

text \<open>
  C7, as the specification has it: the value returned never depends on \<open>verbose\<close>. The
  note is printed after the save and before the return, and \<open>print\<close> can raise: with
  standard output closed, the call with \<open>verbose\<close> set raises where the call without it
  returns the image.
\<close>

theorem generate_verbose_print_raises:
  "fst (generate_image_from_prompt (stub_fixed [1, 2, 3]) red_circle None None (Some True)
          world_closed)
     = Inl (Exn ''ValueError'' ''I/O operation on closed file.'')
   \<and> fst (generate_image_from_prompt (stub_fixed [1, 2, 3]) red_circle None None (Some False)
          world_closed)
     = Inr [1, 2, 3]"
  by (simp add: gen_defs index0_def arg_or_def stub_fixed_def world_closed_def)

text \<open>
  C7, amended. Two calls that differ in \<open>verbose\<close> only leave the object the same, the
  files the same and the collaborator in the same state; and where standard output
  accepts the note, they return (or raise) the same: the flag then decides nothing but
  the printed note.
\<close>

theorem generate_verbose_only_prints:
  fixes C :: "('s, 'p, 'i) collab"
  shows "(stdout_error w (''[INFO] saving image to '' @ arg_or ''prompt.jpg'' loc) = None
          \<longrightarrow> fst (generate_image_from_prompt C self loc tok v1 w)
               = fst (generate_image_from_prompt C self loc tok v2 w))
       \<and> fst (snd (generate_image_from_prompt C self loc tok v1 w))
           = fst (snd (generate_image_from_prompt C self loc tok v2 w))
       \<and> files (snd (snd (generate_image_from_prompt C self loc tok v1 w)))
           = files (snd (snd (generate_image_from_prompt C self loc tok v2 w)))
       \<and> ext (snd (snd (generate_image_from_prompt C self loc tok v1 w)))
           = ext (snd (snd (generate_image_from_prompt C self loc tok v2 w)))"
  using generate_verbose_result [of w loc C self tok v1 v2]
        generate_verbose_frame [of C self loc tok v1 w v2]
  by (simp add: generate_self)

theorem generate_verbose_only_prints_witness:
  "fst (generate_image_from_prompt (stub_fixed [1, 2, 3]) red_circle None None (Some True) world0)
     = fst (generate_image_from_prompt (stub_fixed [1, 2, 3]) red_circle None None (Some False) world0)
   \<and> stdout (snd (snd (generate_image_from_prompt (stub_fixed [1, 2, 3]) red_circle None None
                          (Some True) world0)))
       = [''[INFO] saving image to prompt.jpg'']
   \<and> stdout (snd (snd (generate_image_from_prompt (stub_fixed [1, 2, 3]) red_circle None None
                          (Some False) world0)))
       = []"
proof -
  have "stdout_error world0 (''[INFO] saving image to '' @ arg_or ''prompt.jpg'' None) = None"
    by (simp add: world0_def)
  with generate_verbose_only_prints [where C = "stub_fixed [1, 2, 3]" and self = red_circle
          and loc = None and tok = None and ?v1.0 = "Some True" and ?v2.0 = "Some False"
          and w = world0]
  have "fst (generate_image_from_prompt (stub_fixed [1, 2, 3]) red_circle None None (Some True)
               world0)
          = fst (generate_image_from_prompt (stub_fixed [1, 2, 3]) red_circle None None
               (Some False) world0)"
    by blast
  then show ?thesis
    by (simp add: gen_defs index0_def arg_or_def stub_fixed_def world0_def)
qed

text \<open>
  C8. A call, whether it returns or raises, leaves the object as the constructor made it:
  the prompt and the model identifier are the constructor's arguments, and the device is
  the one chosen at construction from the availability of the accelerator.
\<close>

theorem generate_leaves_self:
  fixes C :: "('s, 'p, 'i) collab"
  assumes "init c p m = Inr g"
    and "generate_image_from_prompt C g loc tok verb w = (r, g', w')"
  shows "g' = g \<and> prompt g' = p \<and> pretrain_pipe g' = m
       \<and> device g' = (if c then ''cuda'' else ''cpu'') \<and> device g' = ''cuda''"
proof -
  from generate_self [of C g loc tok verb w] assms(2) have "g' = g" by simp
  with init_InrD(1,2) [OF assms(1)] show ?thesis by simp
qed

theorem generate_leaves_self_witness:
  "fst (snd (generate_image_from_prompt stub_raising red_circle None None None world0)) = red_circle
   \<and> fst (snd (generate_image_from_prompt (stub_fixed [1, 2, 3]) red_circle None None None world0))
       = red_circle"
proof -
  have i: "init True (PyStr ''a red circle'') (PyStr ''CompVis/stable-diffusion-v1-4'')
          = Inr red_circle"
    by (simp add: init_def red_circle_def)
  have a: "generate_image_from_prompt stub_raising red_circle None None None world0
         = (fst (generate_image_from_prompt stub_raising red_circle None None None world0),
            fst (snd (generate_image_from_prompt stub_raising red_circle None None None world0)),
            snd (snd (generate_image_from_prompt stub_raising red_circle None None None world0)))"
    by simp
  have b: "generate_image_from_prompt (stub_fixed [1, 2, 3]) red_circle None None None world0
         = (fst (generate_image_from_prompt (stub_fixed [1, 2, 3]) red_circle None None None world0),
            fst (snd (generate_image_from_prompt (stub_fixed [1, 2, 3]) red_circle None None None world0)),
            snd (snd (generate_image_from_prompt (stub_fixed [1, 2, 3]) red_circle None None None world0)))"
    by simp
  from generate_leaves_self [OF i a] generate_leaves_self [OF i b] show ?thesis by simp
qed

end
